theory Spec2Isabelle
  imports Complex_Main "HOL-Library.Word" "HOL-Library.Multiset"
begin

section \<open>Strings of the host language\<close>

text \<open>
  The matching engine (\<^verbatim>\<open>src/matching.ts\<close>) is written in TypeScript. Its strings are
  sequences of UTF-16 code units: \<^verbatim>\<open>length\<close>, indexing, \<^verbatim>\<open>===\<close>, \<^verbatim>\<open>includes\<close>,
  \<^verbatim>\<open>startsWith\<close> and \<^verbatim>\<open>slice\<close> all count code units. A string is therefore a list of
  16-bit words. Numbers are modelled as exact rationals; an optional field is an
  \<open>option\<close>, with \<open>None\<close> for \<^verbatim>\<open>undefined\<close>.
\<close>

type_synonym unit16 = "16 word"
type_synonym jsstring = "unit16 list"

definition utf16 :: "string \<Rightarrow> jsstring" where
  \<comment> \<open>the code units of an ASCII literal\<close>
  "utf16 s = map of_char s"

definition isSpace :: "unit16 \<Rightarrow> bool" where
  \<comment> \<open>WhiteSpace and LineTerminator: what \<^verbatim>\<open>trim()\<close> strips and \<^verbatim>\<open>\s\<close> matches\<close>
  "isSpace u \<longleftrightarrow>
     u \<in> {0x9, 0xA, 0xB, 0xC, 0xD, 0x20, 0xA0, 0x1680, 0x2028, 0x2029, 0x202F, 0x205F, 0x3000, 0xFEFF}
     \<or> (0x2000 \<le> u \<and> u \<le> 0x200A)"

definition isDigit :: "unit16 \<Rightarrow> bool" where
  \<comment> \<open>\<^verbatim>\<open>\d\<close>\<close>
  "isDigit u \<longleftrightarrow> 0x30 \<le> u \<and> u \<le> 0x39"

definition trim :: "jsstring \<Rightarrow> jsstring" where
  "trim s = rev (dropWhile isSpace (rev (dropWhile isSpace s)))"

fun startsWith :: "jsstring \<Rightarrow> jsstring \<Rightarrow> bool" where
  \<comment> \<open>\<^verbatim>\<open>s.startsWith(p)\<close>\<close>
  "startsWith s [] = True"
| "startsWith [] (p # ps) = False"
| "startsWith (c # s) (p # ps) = (c = p \<and> startsWith s ps)"

fun includes_str :: "jsstring \<Rightarrow> jsstring \<Rightarrow> bool" where
  \<comment> \<open>\<^verbatim>\<open>s.includes(t)\<close>: \<open>t\<close> occurs in \<open>s\<close> as a contiguous run\<close>
  "includes_str [] t = (t = [])"
| "includes_str (c # s) t = (startsWith (c # s) t \<or> includes_str s t)"

fun splitWs :: "bool \<Rightarrow> jsstring \<Rightarrow> jsstring \<Rightarrow> jsstring list" where
  \<comment> \<open>\<^verbatim>\<open>s.split(/\s+/)\<close>, as \<open>splitWs False [] s\<close>: \<open>inSep\<close> says that the scan is inside
      a run of white space, \<open>cur\<close> is the piece read so far\<close>
  "splitWs inSep cur [] = [cur]"
| "splitWs inSep cur (c # s) =
     (if isSpace c then (if inSep then splitWs True [] s else cur # splitWs True [] s)
      else splitWs False (cur @ [c]) s)"

definition split_ws :: "jsstring \<Rightarrow> jsstring list" where
  "split_ws s = splitWs False [] s"

fun join_sp :: "jsstring list \<Rightarrow> jsstring" where
  \<comment> \<open>\<^verbatim>\<open>p.join(' ')\<close>\<close>
  "join_sp [] = []"
| "join_sp [w] = w"
| "join_sp (w # ws) = w @ [0x20] @ join_sp ws"

fun collapseWs :: "bool \<Rightarrow> jsstring \<Rightarrow> jsstring" where
  \<comment> \<open>\<^verbatim>\<open>s.replace(/\s+/g, ' ')\<close>, as \<open>collapseWs False s\<close>\<close>
  "collapseWs inRun [] = []"
| "collapseWs inRun (c # s) =
     (if isSpace c then (if inRun then collapseWs True s else 0x20 # collapseWs True s)
      else c # collapseWs False s)"

definition slice_last :: "nat \<Rightarrow> jsstring \<Rightarrow> jsstring" where
  \<comment> \<open>\<^verbatim>\<open>s.slice(-n)\<close>\<close>
  "slice_last n s = drop (length s - n) s"

definition truthy :: "jsstring option \<Rightarrow> bool" where
  \<comment> \<open>an optional string in a condition: \<^verbatim>\<open>undefined\<close> and \<^verbatim>\<open>""\<close> are falsy\<close>
  "truthy v \<longleftrightarrow> (case v of None \<Rightarrow> False | Some s \<Rightarrow> s \<noteq> [])"

datatype oneOrMany = One jsstring | Many "jsstring list"

definition truthyOM :: "oneOrMany option \<Rightarrow> bool" where
  \<comment> \<open>\<^verbatim>\<open>string | string[] | undefined\<close> in a condition: every array is truthy\<close>
  "truthyOM v \<longleftrightarrow> (case v of None \<Rightarrow> False | Some (One s) \<Rightarrow> s \<noteq> [] | Some (Many l) \<Rightarrow> True)"

fun asList :: "oneOrMany \<Rightarrow> jsstring list" where
  \<comment> \<open>\<^verbatim>\<open>Array.isArray(x) ? x : [x]\<close>\<close>
  "asList (One s) = [s]"
| "asList (Many l) = l"

text \<open>
  \<^verbatim>\<open>String.prototype.toLowerCase\<close> is a table of the host, not code of the repository:
  every function that calls it takes it as the parameter \<open>lc\<close>. The function below is
  what it does on the Basic Latin block and on U+0130 (capital I with dot above, the one
  code point whose lower-case form, U+0069 U+0307, is longer than itself); it is the
  instance used for concrete inputs.
\<close>

definition lowerAscii :: "unit16 \<Rightarrow> unit16" where
  "lowerAscii u = (if 0x41 \<le> u \<and> u \<le> 0x5A then u + 0x20 else u)"

definition upperAscii :: "unit16 \<Rightarrow> unit16" where
  "upperAscii u = (if 0x61 \<le> u \<and> u \<le> 0x7A then u - 0x20 else u)"

fun lowerBasic :: "jsstring \<Rightarrow> jsstring" where
  "lowerBasic [] = []"
| "lowerBasic (u # s) = (if u = 0x130 then 0x69 # 0x307 # lowerBasic s else lowerAscii u # lowerBasic s)"

definition basicLatin :: "(jsstring \<Rightarrow> jsstring) \<Rightarrow> bool" where
  \<comment> \<open>\<open>lc\<close> lowers the letters A to Z of a string of ASCII code units and nothing else\<close>
  "basicLatin lc \<longleftrightarrow> (\<forall>s. (\<forall>u \<in> set s. u < 0x80) \<longrightarrow> lc s = map lowerAscii s)"

section \<open>String similarity\<close>

text \<open>
  \<^verbatim>\<open>levenshtein\<close> fills a matrix row by row: \<^verbatim>\<open>matrix[i][0] = i\<close>, \<^verbatim>\<open>matrix[0][j] = j\<close>,
  and the cell \<^verbatim>\<open>matrix[i][j]\<close> from its three neighbours. \<open>nextRow\<close> is the inner loop
  over \<open>j\<close>: it reads the previous row from \<^verbatim>\<open>matrix[i-1][j-1]\<close> on and the cell to the
  left, and returns \<^verbatim>\<open>matrix[i][j..]\<close>. \<open>levRows\<close> is the outer loop over \<open>i\<close>.
\<close>

fun nextRow :: "'a \<Rightarrow> 'a list \<Rightarrow> nat list \<Rightarrow> nat \<Rightarrow> nat list" where
  "nextRow bi (aj # as) (diag # up # rest) left =
     (let v = (if bi = aj then diag else min (diag + 1) (min (left + 1) (up + 1)))
      in v # nextRow bi as (up # rest) v)"
| "nextRow bi as prev left = []"

fun levRows :: "'a list \<Rightarrow> 'a list \<Rightarrow> nat \<Rightarrow> nat list \<Rightarrow> nat list" where
  "levRows a [] i row = row"
| "levRows a (bi # bs) i row = levRows a bs (Suc i) (Suc i # nextRow bi a row (Suc i))"

definition levenshtein :: "'a list \<Rightarrow> 'a list \<Rightarrow> nat" where
  \<comment> \<open>\<^verbatim>\<open>matrix[b.length][a.length]\<close>: the last cell of the last row\<close>
  "levenshtein a b = last (levRows a b 0 [0..<Suc (length a)])"

definition similarity :: "(jsstring \<Rightarrow> jsstring) \<Rightarrow> jsstring \<Rightarrow> jsstring \<Rightarrow> rat" where
  "similarity lc a b =
     (let trimA = trim a; trimB = trim b in
      if trimA = [] \<or> trimB = [] then 0
      else let maxLen = max (length trimA) (length trimB) in
        if maxLen = 0 then 0
        else 1 - of_nat (levenshtein (lc trimA) (lc trimB)) / of_nat maxLen)"

subsection \<open>Edit distance, as the specification words it\<close>

text \<open>
  \<open>edits xs ys n\<close>: \<open>xs\<close> becomes \<open>ys\<close> by \<open>n\<close> single-element insertions, deletions and
  substitutions, each of cost one. The edit distance is the least such \<open>n\<close>.
\<close>

inductive edits :: "'a list \<Rightarrow> 'a list \<Rightarrow> nat \<Rightarrow> bool" where
  stop: "edits [] [] 0"
| keep: "edits xs ys n \<Longrightarrow> edits (x # xs) (x # ys) n"
| subst: "edits xs ys n \<Longrightarrow> edits (x # xs) (y # ys) (Suc n)"
| del: "edits xs ys n \<Longrightarrow> edits (x # xs) ys (Suc n)"
| ins: "edits xs ys n \<Longrightarrow> edits xs (y # ys) (Suc n)"

fun cellRec :: "'a list \<Rightarrow> 'a list \<Rightarrow> nat" where
  \<comment> \<open>the recurrence of the matrix cells, read from the front of both lists\<close>
  "cellRec [] ys = length ys"
| "cellRec (x # xs) [] = Suc (length xs)"
| "cellRec (x # xs) (y # ys) =
     (if x = y then cellRec xs ys
      else min (cellRec xs ys + 1) (min (cellRec (x # xs) ys + 1) (cellRec xs (y # ys) + 1)))"

definition cell :: "'a list \<Rightarrow> 'a list \<Rightarrow> nat" where
  \<comment> \<open>the cell \<^verbatim>\<open>matrix[i][j]\<close> for the prefixes \<open>bs\<close> of \<^verbatim>\<open>b\<close> and \<open>as\<close> of \<^verbatim>\<open>a\<close>\<close>
  "cell bs as = cellRec (rev bs) (rev as)"

fun prefixesFrom :: "'a list \<Rightarrow> 'a list \<Rightarrow> 'a list list" where
  "prefixesFrom pre [] = [pre]"
| "prefixesFrom pre (x # xs) = pre # prefixesFrom (pre @ [x]) xs"

fun codePoints :: "jsstring \<Rightarrow> nat list" where
  \<comment> \<open>the Unicode code points of a UTF-16 string: a high surrogate followed by a low one
      is one code point\<close>
  "codePoints [] = []"
| "codePoints [u] = [unat u]"
| "codePoints (h # l # r) =
     (if 0xD800 \<le> h \<and> h \<le> 0xDBFF \<and> 0xDC00 \<le> l \<and> l \<le> 0xDFFF
      then (0x10000 + (unat h - 0xD800) * 0x400 + (unat l - 0xDC00)) # codePoints r
      else unat h # codePoints (l # r))"

definition similarityCodePoints :: "(jsstring \<Rightarrow> jsstring) \<Rightarrow> jsstring \<Rightarrow> jsstring \<Rightarrow> rat" where
  \<comment> \<open>the similarity of the specification: distance and lengths counted in code points\<close>
  "similarityCodePoints lc a b =
     (let trimA = trim a; trimB = trim b in
      if trimA = [] \<or> trimB = [] then 0
      else 1 - of_nat (levenshtein (codePoints (lc trimA)) (codePoints (lc trimB)))
               / of_nat (max (length (codePoints trimA)) (length (codePoints trimB))))"

section \<open>Nickname and location tables\<close>

definition NICKNAMES :: "(jsstring \<times> jsstring list) list" where
  "NICKNAMES = map (\<lambda>(formal, nicks). (utf16 formal, map utf16 nicks))
     [(''william'', [''will'', ''bill'', ''billy'']), (''robert'', [''rob'', ''bob'', ''bobby'']),
      (''richard'', [''rick'', ''dick'', ''rich'']), (''james'', [''jim'', ''jimmy'', ''jamie'']),
      (''michael'', [''mike'', ''mikey'']), (''elizabeth'', [''liz'', ''beth'', ''lizzy'', ''betty'']),
      (''jennifer'', [''jen'', ''jenny'']), (''margaret'', [''maggie'', ''meg'', ''peggy'']),
      (''katherine'', [''kate'', ''kathy'', ''katie'']), (''jonathan'', [''jon'', ''john'', ''johnny'']),
      (''christopher'', [''chris'']), (''nicholas'', [''nick'']), (''alexander'', [''alex'']),
      (''benjamin'', [''ben'']), (''daniel'', [''dan'', ''danny'']), (''matthew'', [''matt'']),
      (''anthony'', [''tony'']), (''joseph'', [''joe'', ''joey'']), (''david'', [''dave''])]"

definition areNicknameVariants :: "(jsstring \<Rightarrow> jsstring) \<Rightarrow> jsstring \<Rightarrow> jsstring \<Rightarrow> bool" where
  "areNicknameVariants lc n1 n2 =
     (let a = lc n1; b = lc n2 in
      if a = b then True
      else list_ex (\<lambda>(formal, nicks). let all = formal # nicks in a \<in> set all \<and> b \<in> set all) NICKNAMES)"

definition LOCATION_ALIASES :: "(jsstring \<times> jsstring list) list" where
  "LOCATION_ALIASES = map (\<lambda>(canonical, aliases). (utf16 canonical, map utf16 aliases))
     [(''san francisco'', [''sf'', ''bay area'', ''sf bay area'']),
      (''new york'', [''nyc'', ''new york city'', ''ny'', ''manhattan'']),
      (''los angeles'', [''la'', ''socal''])]"

definition normalizeLocation :: "(jsstring \<Rightarrow> jsstring) \<Rightarrow> jsstring \<Rightarrow> jsstring" where
  "normalizeLocation lc loc =
     trim (collapseWs False (map (\<lambda>u. if u = 0x2E \<or> u = 0x2C then 0x20 else u) (lc loc)))"

definition matchLocationAlias :: "(jsstring \<Rightarrow> jsstring) \<Rightarrow> jsstring \<Rightarrow> jsstring \<Rightarrow> bool" where
  "matchLocationAlias lc loc1 loc2 =
     (let n1 = normalizeLocation lc loc1; n2 = normalizeLocation lc loc2 in
      list_ex (\<lambda>(canonical, aliases). let all = canonical # aliases in
                 list_ex (\<lambda>a. includes_str n1 a) all \<and> list_ex (\<lambda>a. includes_str n2 a) all)
              LOCATION_ALIASES)"

section \<open>Phone and date helpers\<close>

definition normalizePhone :: "jsstring \<Rightarrow> jsstring" where
  \<comment> \<open>\<^verbatim>\<open>phone.replace(/\D/g, '').slice(-10)\<close>\<close>
  "normalizePhone phone = slice_last 10 (filter isDigit phone)"

definition parseInt :: "jsstring \<Rightarrow> nat" where
  \<comment> \<open>\<^verbatim>\<open>parseInt\<close> of a captured run of decimal digits\<close>
  "parseInt ds = foldl (\<lambda>n d. 10 * n + (unat d - 48)) 0 ds"

text \<open>
  The two regular expressions carry the flag \<^verbatim>\<open>i\<close> and not \<^verbatim>\<open>u\<close>: a letter of the
  pattern matches its two ASCII cases and no other code unit. \<^verbatim>\<open>match\<close> returns the
  leftmost match; the functions below try the pattern at one position, with the
  choices of the backtracking matcher in its order (two digits before one, the
  optional group before its absence). After a greedy \<^verbatim>\<open>\s+\<close> or \<^verbatim>\<open>\s*\<close> the pattern goes
  on with a letter or a digit, so giving back white space never finds another match.
\<close>

definition ciEq :: "unit16 \<Rightarrow> unit16 \<Rightarrow> bool" where
  "ciEq c p \<longleftrightarrow> upperAscii c = upperAscii p"

fun litCI :: "jsstring \<Rightarrow> jsstring \<Rightarrow> jsstring option" where
  \<comment> \<open>the literal \<open>p\<close> at the start of \<open>s\<close>, ignoring case: what follows it\<close>
  "litCI [] s = Some s"
| "litCI (p # ps) [] = None"
| "litCI (p # ps) (c # s) = (if ciEq c p then litCI ps s else None)"

fun fourDigits :: "jsstring \<Rightarrow> jsstring option" where
  \<comment> \<open>\<^verbatim>\<open>(\d{4})\<close>\<close>
  "fourDigits (a # b # c # d # r) =
     (if isDigit a \<and> isDigit b \<and> isDigit c \<and> isDigit d then Some [a, b, c, d] else None)"
| "fourDigits s = None"

definition bornAt :: "jsstring \<Rightarrow> jsstring option" where
  \<comment> \<open>\<^verbatim>\<open>/born\s+(?:in\s+)?(\d{4})/i\<close> at the start of \<open>s\<close>: the captured digits\<close>
  "bornAt s =
     (case litCI (utf16 ''born'') s of
        None \<Rightarrow> None
      | Some r1 \<Rightarrow>
          let r2 = dropWhile isSpace r1 in
          if length r2 = length r1 then None
          else (case (case litCI (utf16 ''in'') r2 of
                        None \<Rightarrow> None
                      | Some r3 \<Rightarrow> let r4 = dropWhile isSpace r3 in
                                   if length r4 = length r3 then None else fourDigits r4) of
                  Some y \<Rightarrow> Some y
                | None \<Rightarrow> fourDigits r2))"

definition oldAt :: "jsstring \<Rightarrow> bool" where
  \<comment> \<open>\<^verbatim>\<open>\s*old\<close>\<close>
  "oldAt r \<longleftrightarrow> litCI (utf16 ''old'') (dropWhile isSpace r) \<noteq> None"

definition yearsOldAt :: "jsstring \<Rightarrow> bool" where
  \<comment> \<open>\<^verbatim>\<open>years?\s*old\<close>\<close>
  "yearsOldAt r \<longleftrightarrow>
     (case litCI (utf16 ''year'') r of
        None \<Rightarrow> False
      | Some r1 \<Rightarrow> (case r1 of c # r2 \<Rightarrow> ciEq c 0x73 \<and> oldAt r2 | [] \<Rightarrow> False) \<or> oldAt r1)"

definition ageTail :: "jsstring \<Rightarrow> bool" where
  \<comment> \<open>\<^verbatim>\<open>\s*(?:years?\s*old|yo|y\/o)\<close>\<close>
  "ageTail r \<longleftrightarrow>
     (let r' = dropWhile isSpace r in
      yearsOldAt r' \<or> litCI (utf16 ''yo'') r' \<noteq> None \<or> litCI (utf16 ''y/o'') r' \<noteq> None)"

fun ageAt :: "jsstring \<Rightarrow> jsstring option" where
  \<comment> \<open>\<^verbatim>\<open>/(\d{1,2})\s*(?:years?\s*old|yo|y\/o)/i\<close> at the start of \<open>s\<close>: the captured digits\<close>
  "ageAt (d1 # d2 # r) =
     (if isDigit d1 \<and> isDigit d2 \<and> ageTail r then Some [d1, d2]
      else if isDigit d1 \<and> ageTail (d2 # r) then Some [d1]
      else None)"
| "ageAt [d1] = (if isDigit d1 \<and> ageTail [] then Some [d1] else None)"
| "ageAt [] = None"

fun firstMatch :: "(jsstring \<Rightarrow> 'a option) \<Rightarrow> jsstring \<Rightarrow> 'a option" where
  \<comment> \<open>the leftmost position where the pattern matches\<close>
  "firstMatch pat [] = pat []"
| "firstMatch pat (c # s) = (case pat (c # s) of Some m \<Rightarrow> Some m | None \<Rightarrow> firstMatch pat s)"

definition extractYearFromBio :: "int \<Rightarrow> jsstring \<Rightarrow> int option" where
  \<comment> \<open>\<open>now\<close> is \<^verbatim>\<open>new Date().getFullYear()\<close>\<close>
  "extractYearFromBio now bio =
     (case firstMatch bornAt bio of
        Some ds \<Rightarrow> Some (int (parseInt ds))
      | None \<Rightarrow>
          (case firstMatch ageAt bio of
             Some ds \<Rightarrow> let age = parseInt ds in
                        if age > 10 \<and> age < 100 then Some (now - int age) else None
           | None \<Rightarrow> None))"

section \<open>Field matchers\<close>

fun matchName :: "(jsstring \<Rightarrow> jsstring) \<Rightarrow> jsstring option \<Rightarrow> jsstring option \<Rightarrow> rat" where
  "matchName lc (Some personName) (Some profileName) =
     (let name1 = trim personName; name2 = trim profileName in
      if name1 = [] \<or> name2 = [] then 0
      else let p1 = filter (\<lambda>w. w \<noteq> []) (split_ws (lc name1));
               p2 = filter (\<lambda>w. w \<noteq> []) (split_ws (lc name2)) in
        if length p1 = 0 \<or> length p2 = 0 then 0
        else if join_sp p1 = join_sp p2 then 1
        else if length p1 > 0 \<and> length p2 > 0 \<and> areNicknameVariants lc (hd p1) (hd p2) then
          (if length p1 > 1 \<and> length p2 > 1 \<and> similarity lc (last p1) (last p2) > 8 / 10
           then 95 / 100 else 7 / 10)
        else if length (hd p2) = 1 \<and> startsWith (hd p1) (hd p2) then
          (if length p1 > 1 \<and> length p2 > 1
           then 5 / 10 + similarity lc (last p1) (last p2) * (3 / 10) else 4 / 10)
        else similarity lc name1 name2)"
| "matchName lc personName profileName = 0"

fun matchLocation :: "(jsstring \<Rightarrow> jsstring) \<Rightarrow> jsstring option \<Rightarrow> jsstring option \<Rightarrow> rat" where
  "matchLocation lc (Some personLoc) (Some profileLoc) =
     (if personLoc = [] \<or> profileLoc = [] then 0
      else let n1 = normalizeLocation lc personLoc; n2 = normalizeLocation lc profileLoc in
        if n1 = n2 then 1
        else if matchLocationAlias lc personLoc profileLoc then 9 / 10
        else if includes_str n1 n2 \<or> includes_str n2 n1 then 85 / 100
        else similarity lc n1 n2)"
| "matchLocation lc personLoc profileLoc = 0"

fun matchEmployerInBio :: "(jsstring \<Rightarrow> jsstring) \<Rightarrow> jsstring option \<Rightarrow> jsstring option \<Rightarrow> rat" where
  "matchEmployerInBio lc (Some employer) (Some bio) =
     (if employer = [] \<or> bio = [] then 0
      else let e = lc employer; b = lc bio in
        if includes_str b e then 1
        else let words = filter (\<lambda>w. length w > 2) (split_ws e);
                 matched = filter (\<lambda>w. includes_str b w) words in
          if length matched > 0 then (5 / 10) * (of_nat (length matched) / of_nat (length words))
          else 0)"
| "matchEmployerInBio lc employer bio = 0"

fun matchJobTitleInBio :: "(jsstring \<Rightarrow> jsstring) \<Rightarrow> jsstring option \<Rightarrow> jsstring option \<Rightarrow> rat" where
  "matchJobTitleInBio lc (Some jobTitle) (Some bio) =
     (if jobTitle = [] \<or> bio = [] then 0
      else let t = lc jobTitle; b = lc bio in
        if includes_str b t then 1
        else let words = filter (\<lambda>w. length w > 3) (split_ws t);
                 matched = filter (\<lambda>w. includes_str b w) words in
          if length matched > 0 then (6 / 10) * (of_nat (length matched) / of_nat (length words))
          else if similarity lc t b > 5 / 10 then similarity lc t b * (5 / 10) else 0)"
| "matchJobTitleInBio lc jobTitle bio = 0"

definition stripPunctDigits :: "jsstring \<Rightarrow> jsstring" where
  \<comment> \<open>\<^verbatim>\<open>.replace(/[._-]/g, '').replace(/\d+/g, '')\<close>\<close>
  "stripPunctDigits s =
     filter (\<lambda>u. \<not> isDigit u) (filter (\<lambda>u. u \<noteq> 0x2E \<and> u \<noteq> 0x5F \<and> u \<noteq> 0x2D) s)"

definition localPart :: "jsstring \<Rightarrow> jsstring" where
  \<comment> \<open>\<^verbatim>\<open>email.split('@')[0]\<close>\<close>
  "localPart email = takeWhile (\<lambda>u. u \<noteq> 0x40) email"

fun emailLoop :: "(jsstring \<Rightarrow> jsstring) \<Rightarrow> jsstring \<Rightarrow> jsstring \<Rightarrow> jsstring list \<Rightarrow> rat" where
  \<comment> \<open>the loop \<^verbatim>\<open>for (const email of list)\<close> and the \<^verbatim>\<open>return 0\<close> after it\<close>
  "emailLoop lc username uNorm [] = 0"
| "emailLoop lc username uNorm (email # rest) =
     (let eUser = lc (localPart email); eNorm = stripPunctDigits eUser in
      if eUser = lc username then 1
      else if eNorm = uNorm then 9 / 10
      else if includes_str uNorm eNorm \<or> includes_str eNorm uNorm then 7 / 10
      else emailLoop lc username uNorm rest)"

fun matchEmailToUsername :: "(jsstring \<Rightarrow> jsstring) \<Rightarrow> oneOrMany option \<Rightarrow> jsstring option \<Rightarrow> rat" where
  "matchEmailToUsername lc (Some emails) (Some username) =
     (if \<not> truthyOM (Some emails) \<or> username = [] then 0
      else let list = asList emails; uNorm = stripPunctDigits (lc username) in
        emailLoop lc username uNorm list)"
| "matchEmailToUsername lc emails username = 0"

fun phoneLoop :: "jsstring \<Rightarrow> jsstring list \<Rightarrow> rat" where
  "phoneLoop bioDigits [] = 0"
| "phoneLoop bioDigits (phone # rest) =
     (let normalized = normalizePhone phone in
      if length normalized \<ge> 7 \<and> includes_str bioDigits normalized then 1
      else if length normalized \<ge> 7 \<and> includes_str bioDigits (slice_last 7 normalized) then 8 / 10
      else phoneLoop bioDigits rest)"

fun matchPhoneInBio :: "oneOrMany option \<Rightarrow> jsstring option \<Rightarrow> rat" where
  "matchPhoneInBio (Some phones) (Some bio) =
     (if \<not> truthyOM (Some phones) \<or> bio = [] then 0
      else let list = asList phones; bioDigits = filter isDigit bio in
        phoneLoop bioDigits list)"
| "matchPhoneInBio phones bio = 0"

text \<open>
  \<^verbatim>\<open>new Date(dateStr)\<close> and \<^verbatim>\<open>getFullYear()\<close> belong to the host as well (which strings
  parse, and the year in local time, depend on it): \<open>parseYear dob\<close> is the year of
  \<^verbatim>\<open>parseDate(dob)\<close>, and \<open>None\<close> when \<^verbatim>\<open>parseDate\<close> returns \<^verbatim>\<open>null\<close>.
\<close>

fun matchDateOfBirth :: "(jsstring \<Rightarrow> int option) \<Rightarrow> int \<Rightarrow> jsstring option \<Rightarrow> jsstring option \<Rightarrow> rat" where
  "matchDateOfBirth parseYear now (Some dob) (Some bio) =
     (if dob = [] \<or> bio = [] then 0
      else case parseYear dob of
        None \<Rightarrow> 0
      | Some personYear \<Rightarrow>
          (case extractYearFromBio now bio of
             None \<Rightarrow> 0
           | Some bioYear \<Rightarrow>
               if bioYear \<noteq> 0 then
                 (if bioYear = personYear then 1
                  else if \<bar>bioYear - personYear\<bar> \<le> 1 then 7 / 10
                  else 0)
               else 0))"
| "matchDateOfBirth parseYear now dob bio = 0"

section \<open>Weights and scoring\<close>

record Person =
  name :: "jsstring option"
  email :: "oneOrMany option"
  phone :: "oneOrMany option"
  location :: "jsstring option"
  dateOfBirth :: "jsstring option"
  employer :: "jsstring option"
  jobTitle :: "jsstring option"

record Profile =
  platform :: jsstring
  username :: jsstring
  displayName :: "jsstring option"
  display_name :: "jsstring option"
  bio :: "jsstring option"
  location :: "jsstring option"
  profileUrl :: "jsstring option"
  profile_url :: "jsstring option"

type_synonym MatchFactors = "string \<rightharpoonup> rat"

record MatchResult =
  profile :: Profile
  score :: rat
  factors :: MatchFactors

datatype factor = Name | Location | Employer | EmailUsername | JobTitle | Phone | DateOfBirth

fun WEIGHTS :: "factor \<Rightarrow> rat" where
  "WEIGHTS Name = 30 / 100"
| "WEIGHTS Location = 12 / 100"
| "WEIGHTS Employer = 18 / 100"
| "WEIGHTS EmailUsername = 18 / 100"
| "WEIGHTS JobTitle = 10 / 100"
| "WEIGHTS Phone = 7 / 100"
| "WEIGHTS DateOfBirth = 5 / 100"

text \<open>
  The three locals \<^verbatim>\<open>factors\<close>, \<^verbatim>\<open>score\<close> and \<^verbatim>\<open>weight\<close> of \<^verbatim>\<open>calculateMatchScore\<close>, and
  the body shared by its seven \<^verbatim>\<open>if\<close> blocks: record the factor, add to the two sums.
\<close>

record acc =
  factorsAcc :: MatchFactors
  scoreAcc :: rat
  weightAcc :: rat

definition addFactor :: "string \<Rightarrow> rat \<Rightarrow> rat \<Rightarrow> acc \<Rightarrow> acc" where
  "addFactor key s w a =
     \<lparr>factorsAcc = (factorsAcc a)(key \<mapsto> s), scoreAcc = scoreAcc a + s * w, weightAcc = weightAcc a + w\<rparr>"

definition round2 :: "rat \<Rightarrow> rat" where
  \<comment> \<open>\<^verbatim>\<open>Math.round(x * 100) / 100\<close>; \<^verbatim>\<open>Math.round\<close> rounds a half upwards\<close>
  "round2 x = of_int \<lfloor>x * 100 + 1 / 2\<rfloor> / 100"

definition displayNameOf :: "Profile \<Rightarrow> jsstring option" where
  \<comment> \<open>\<^verbatim>\<open>profile.displayName || profile.display_name\<close>\<close>
  "displayNameOf p = (if truthy (displayName p) then displayName p else display_name p)"

definition calculateMatchScore ::
  "(jsstring \<Rightarrow> jsstring) \<Rightarrow> (jsstring \<Rightarrow> int option) \<Rightarrow> int \<Rightarrow> Person \<Rightarrow> Profile \<Rightarrow> MatchResult" where
  "calculateMatchScore lc parseYear now person p =
     (let a0 = \<lparr>factorsAcc = Map.empty, scoreAcc = 0, weightAcc = 0\<rparr>;
          dname = displayNameOf p;
          a1 = (if truthy (name person) \<and> truthy dname
                then addFactor ''name_match'' (matchName lc (name person) dname) (WEIGHTS Name) a0
                else a0);
          a2 = (if truthy (Person.location person) \<and> truthy (Profile.location p)
                then addFactor ''location_match''
                       (matchLocation lc (Person.location person) (Profile.location p)) (WEIGHTS Location) a1
                else a1);
          a3 = (if truthy (employer person) \<and> truthy (bio p)
                then addFactor ''employer_in_bio'' (matchEmployerInBio lc (employer person) (bio p))
                       (WEIGHTS Employer) a2
                else a2);
          a4 = (if truthy (jobTitle person) \<and> truthy (bio p)
                then addFactor ''job_title_in_bio'' (matchJobTitleInBio lc (jobTitle person) (bio p))
                       (WEIGHTS JobTitle) a3
                else a3);
          a5 = (if truthyOM (email person) \<and> username p \<noteq> []
                then addFactor ''email_username_match''
                       (matchEmailToUsername lc (email person) (Some (username p))) (WEIGHTS EmailUsername) a4
                else a4);
          a6 = (if truthyOM (phone person) \<and> truthy (bio p)
                then addFactor ''phone_in_bio'' (matchPhoneInBio (phone person) (bio p)) (WEIGHTS Phone) a5
                else a5);
          a7 = (if truthy (dateOfBirth person) \<and> truthy (bio p)
                then addFactor ''dob_match'' (matchDateOfBirth parseYear now (dateOfBirth person) (bio p))
                       (WEIGHTS DateOfBirth) a6
                else a6);
          finalScore = (if weightAcc a7 > 0 then round2 (scoreAcc a7 / weightAcc a7) else 0)
      in \<lparr>profile = p, score = finalScore, factors = factorsAcc a7\<rparr>)"

text \<open>
  \<^verbatim>\<open>Array.prototype.sort\<close> is stable: with the comparator \<^verbatim>\<open>(a, b) => b.score - a.score\<close>
  an element goes before the elements that do not score more than it, and equal scores
  keep their order. \<open>sortByScore\<close> inserts the elements from the last to the first.
\<close>

definition compareScore :: "MatchResult \<Rightarrow> MatchResult \<Rightarrow> rat" where
  "compareScore a b = score b - score a"

fun insertByScore :: "MatchResult \<Rightarrow> MatchResult list \<Rightarrow> MatchResult list" where
  "insertByScore r [] = [r]"
| "insertByScore r (x # xs) = (if compareScore r x \<le> 0 then r # x # xs else x # insertByScore r xs)"

definition sortByScore :: "MatchResult list \<Rightarrow> MatchResult list" where
  "sortByScore rs = foldr insertByScore rs []"

definition matchProfiles ::
  "(jsstring \<Rightarrow> jsstring) \<Rightarrow> (jsstring \<Rightarrow> int option) \<Rightarrow> int \<Rightarrow> Person \<Rightarrow> Profile list \<Rightarrow> MatchResult list" where
  "matchProfiles lc parseYear now person profiles =
     sortByScore (map (\<lambda>p. calculateMatchScore lc parseYear now person p) profiles)"

subsection \<open>The aggregate, as the specification words it\<close>




subsection \<open>The first qualifying email, as the specification words it\<close>

definition emailTier :: "(jsstring \<Rightarrow> jsstring) \<Rightarrow> jsstring \<Rightarrow> jsstring \<Rightarrow> rat option" where
  \<comment> \<open>the tier that one email satisfies against the user name, if any\<close>
  "emailTier lc uname e =
     (let localLower = lc (localPart e);
          strippedLocal = stripPunctDigits localLower;
          strippedUser = stripPunctDigits (lc uname) in
      if localLower = lc uname then Some 1
      else if strippedLocal = strippedUser then Some (9 / 10)
      else if includes_str strippedUser strippedLocal \<or> includes_str strippedLocal strippedUser
        then Some (7 / 10)
      else None)"


subsection \<open>Inputs for the examples\<close>

definition personNamed :: "jsstring \<Rightarrow> Person" where
  \<comment> \<open>a person with only a name supplied\<close>
  "personNamed n =
     \<lparr>name = Some n, email = None, phone = None, location = None, dateOfBirth = None,
      employer = None, jobTitle = None\<rparr>"

definition profileShowing :: "jsstring \<Rightarrow> jsstring \<Rightarrow> jsstring \<Rightarrow> Profile" where
  \<comment> \<open>a profile with its two required fields and a display name\<close>
  "profileShowing pf un dn =
     \<lparr>platform = pf, username = un, displayName = Some dn, display_name = None, bio = None,
      location = None, profileUrl = None, profile_url = None\<rparr>"

subsection \<open>Missing and empty operands, as the specification words them\<close>




section \<open>The matrix computes the edit distance\<close>

lemma cellRec_Nil2 [simp]: "cellRec xs [] = length xs"
  by (cases xs) simp_all

lemma cellRec_step:
  "cellRec xs ys \<le> Suc (cellRec (x # xs) ys) \<and> cellRec xs ys \<le> Suc (cellRec xs (y # ys))
   \<and> cellRec (x # xs) ys \<le> Suc (cellRec xs ys) \<and> cellRec xs (y # ys) \<le> Suc (cellRec xs ys)"
proof (induction "length xs + length ys" arbitrary: xs ys x y rule: less_induct)
  case less
  have a: "cellRec xs ys \<le> Suc (cellRec (x # xs) ys)"
  proof (cases ys)
    case Nil
    then show ?thesis by simp
  next
    case (Cons b bs)
    then have "length xs + length bs < length xs + length ys" by simp
    from less[OF this, of x b] show ?thesis unfolding Cons by (auto simp: min_def)
  qed
  have c: "cellRec (x # xs) ys \<le> Suc (cellRec xs ys)"
  proof (cases ys)
    case Nil
    then show ?thesis by simp
  next
    case (Cons b bs)
    then have "length xs + length bs < length xs + length ys" by simp
    from less[OF this, of x b] show ?thesis unfolding Cons by (auto simp: min_def)
  qed
  have b: "cellRec xs ys \<le> Suc (cellRec xs (y # ys))"
  proof (cases xs)
    case Nil
    then show ?thesis by simp
  next
    case (Cons a as)
    then have "length as + length ys < length xs + length ys" by simp
    from less[OF this, of a y] show ?thesis unfolding Cons by (auto simp: min_def)
  qed
  have d: "cellRec xs (y # ys) \<le> Suc (cellRec xs ys)"
  proof (cases xs)
    case Nil
    then show ?thesis by simp
  next
    case (Cons a as)
    then have "length as + length ys < length xs + length ys" by simp
    from less[OF this, of a y] show ?thesis unfolding Cons by (auto simp: min_def)
  qed
  from a b c d show ?case by simp
qed

lemma prefixesFrom_hd: "prefixesFrom d xs = d # tl (prefixesFrom d xs)"
  by (cases xs) simp_all

lemma prefixesFrom_nonempty [simp]: "prefixesFrom d xs \<noteq> []"
  by (cases xs) simp_all

lemma nextRow_cells:
  "nextRow bi xs (map (cell bs) (prefixesFrom d xs)) (cell (bs @ [bi]) d)
     = map (cell (bs @ [bi])) (tl (prefixesFrom d xs))"
proof (induction xs arbitrary: d)
  case Nil
  then show ?case by simp
next
  case (Cons x xs)
  obtain r where r: "prefixesFrom (d @ [x]) xs = (d @ [x]) # r"
    using prefixesFrom_hd by blast
  have v: "(if bi = x then cell bs d
            else min (cell bs d + 1) (min (cell (bs @ [bi]) d + 1) (cell bs (d @ [x]) + 1)))
           = cell (bs @ [bi]) (d @ [x])"
    by (simp add: cell_def)
  have "nextRow bi (x # xs) (map (cell bs) (prefixesFrom d (x # xs))) (cell (bs @ [bi]) d)
        = nextRow bi (x # xs) (cell bs d # cell bs (d @ [x]) # map (cell bs) r) (cell (bs @ [bi]) d)"
    by (simp add: r)
  also have "\<dots> = cell (bs @ [bi]) (d @ [x])
        # nextRow bi xs (cell bs (d @ [x]) # map (cell bs) r) (cell (bs @ [bi]) (d @ [x]))"
    by (simp only: nextRow.simps Let_def v)
  also have "\<dots> = cell (bs @ [bi]) (d @ [x]) # map (cell (bs @ [bi])) r"
    using Cons[of "d @ [x]"] by (simp add: r)
  also have "\<dots> = map (cell (bs @ [bi])) (tl (prefixesFrom d (x # xs)))"
    by (simp add: r)
  finally show ?case .
qed

lemma length_prefixesFrom: "map length (prefixesFrom d xs) = [length d..<Suc (length d + length xs)]"
proof (induction xs arbitrary: d)
  case Nil
  then show ?case by simp
next
  case (Cons x xs)
  show ?case using Cons[of "d @ [x]"] by (simp add: upt_conv_Cons del: upt_Suc)
qed

lemma last_prefixesFrom: "last (prefixesFrom d xs) = d @ xs"
  by (induction xs arbitrary: d) simp_all

lemma levRows_cells:
  "levRows a bs (length pre) (map (cell pre) (prefixesFrom [] a))
     = map (cell (pre @ bs)) (prefixesFrom [] a)"
proof (induction bs arbitrary: pre)
  case Nil
  then show ?case by simp
next
  case (Cons b bs)
  have hd: "Suc (length pre) = cell (pre @ [b]) []" by (simp add: cell_def)
  have "Suc (length pre) # nextRow b a (map (cell pre) (prefixesFrom [] a)) (Suc (length pre))
        = map (cell (pre @ [b])) (prefixesFrom [] a)"
    using nextRow_cells[of b a pre "[]"] prefixesFrom_hd[of "[]" a]
    by (metis hd list.simps(9))
  then show ?case using Cons[of "pre @ [b]"] by simp
qed

lemma levenshtein_cellRec: "levenshtein a b = cellRec (rev b) (rev a)"
proof -
  have "cell [] = (length :: 'a list \<Rightarrow> nat)"
    by (rule ext) (simp add: cell_def)
  then have "map (cell []) (prefixesFrom [] a) = [0..<Suc (length a)]"
    using length_prefixesFrom[of "[]" a] by simp
  then have "levRows a b 0 [0..<Suc (length a)] = map (cell b) (prefixesFrom [] a)"
    using levRows_cells[of a b "[]"] by simp
  then show ?thesis
    by (simp add: levenshtein_def last_map last_prefixesFrom cell_def)
qed

lemma edits_cellRec: "edits xs ys (cellRec xs ys)"
proof (induction xs ys rule: cellRec.induct)
  case (1 ys)
  show ?case by (induction ys) (auto intro: edits.intros)
next
  case (2 x xs)
  have "edits xs [] (length xs)" by (induction xs) (auto intro: edits.intros)
  then show ?case by (auto intro: edits.intros)
next
  case (3 x xs y ys)
  then show ?case by (auto simp: min_def intro: edits.intros)
qed

lemma cellRec_least: "edits xs ys n \<Longrightarrow> cellRec xs ys \<le> n"
proof (induction rule: edits.induct)
  case stop
  show ?case by simp
next
  case (keep xs ys n x)
  then show ?case by simp
next
  case (subst xs ys n x y)
  then show ?case by (simp add: min_def)
next
  case (del xs ys n x)
  then show ?case using cellRec_step[of xs ys x x] by linarith
next
  case (ins xs ys n y)
  then show ?case using cellRec_step[of xs ys y y] by linarith
qed

lemma edits_snoc_keep: "edits xs ys n \<Longrightarrow> edits (xs @ [x]) (ys @ [x]) n"
  by (induction rule: edits.induct) (auto intro: edits.intros)

lemma edits_snoc_subst: "edits xs ys n \<Longrightarrow> edits (xs @ [x]) (ys @ [y]) (Suc n)"
  by (induction rule: edits.induct) (auto intro: edits.intros)

lemma edits_snoc_del: "edits xs ys n \<Longrightarrow> edits (xs @ [x]) ys (Suc n)"
  by (induction rule: edits.induct) (auto intro: edits.intros)

lemma edits_snoc_ins: "edits xs ys n \<Longrightarrow> edits xs (ys @ [y]) (Suc n)"
  by (induction rule: edits.induct) (auto intro: edits.intros)

lemma edits_rev: "edits xs ys n \<Longrightarrow> edits (rev xs) (rev ys) n"
  by (induction rule: edits.induct)
     (auto intro: edits.stop edits_snoc_keep edits_snoc_subst edits_snoc_del edits_snoc_ins)

lemma edits_sym: "edits xs ys n \<Longrightarrow> edits ys xs n"
  by (induction rule: edits.induct) (auto intro: edits.intros)

lemma edits_levenshtein: "edits a b (levenshtein a b)"
  using edits_sym[OF edits_rev[OF edits_cellRec[of "rev b" "rev a"]]]
  by (simp add: levenshtein_cellRec)

lemma levenshtein_least: "edits a b n \<Longrightarrow> levenshtein a b \<le> n"
  using cellRec_least[OF edits_rev[OF edits_sym]] by (simp add: levenshtein_cellRec)

lemma edits_refl: "edits xs xs 0"
  by (induction xs) (auto intro: edits.intros)

lemma edits_max: "edits xs ys (max (length xs) (length ys))"
proof (induction xs ys rule: list_induct2')
  case 1
  show ?case by (simp add: edits.stop)
next
  case (2 x xs)
  have "edits xs [] (length xs)" by (induction xs) (auto intro: edits.intros)
  then show ?case by (auto intro: edits.intros)
next
  case (3 y ys)
  have "edits [] ys (length ys)" by (induction ys) (auto intro: edits.intros)
  then show ?case by (auto intro: edits.intros)
next
  case (4 x xs y ys)
  then show ?case by (auto intro: edits.subst)
qed

lemma levenshtein_same [simp]: "levenshtein xs xs = 0"
  using levenshtein_least[OF edits_refl, of xs] by simp

lemma levenshtein_le_max: "levenshtein xs ys \<le> max (length xs) (length ys)"
  by (rule levenshtein_least[OF edits_max])

section \<open>C5: similarity is one minus the normalised edit distance\<close>

text \<open>
  Claim C5, as amended. \<open>similarity a b\<close> is 0 when either trimmed input is empty, and
  otherwise one minus the edit distance of the lower-cased trimmed strings divided by the
  larger of the two trimmed lengths. Distance and lengths count UTF-16 code units, and
  the lengths are those of the trimmed strings before lower-casing. \<open>levenshtein\<close> is
  the unit-cost insert, delete and substitute distance: it is reached by a sequence of
  edits, and no sequence of edits is shorter. The similarity of a string with non-empty
  trim to itself is 1.
\<close>

theorem similarity_code_units:
  "similarity lc a b =
     (if trim a = [] \<or> trim b = [] then 0
      else 1 - of_nat (levenshtein (lc (trim a)) (lc (trim b)))
               / of_nat (max (length (trim a)) (length (trim b))))
   \<and> edits x y (levenshtein x y)
   \<and> (\<forall>n. edits x y n \<longrightarrow> levenshtein x y \<le> n)
   \<and> (trim s \<noteq> [] \<longrightarrow> similarity lc s s = 1)"
proof -
  have 1: "similarity lc a b =
     (if trim a = [] \<or> trim b = [] then 0
      else 1 - of_nat (levenshtein (lc (trim a)) (lc (trim b)))
               / of_nat (max (length (trim a)) (length (trim b))))"
    by (simp add: similarity_def Let_def)
  have 2: "trim s \<noteq> [] \<longrightarrow> similarity lc s s = 1"
    by (simp add: similarity_def Let_def)
  from 1 2 edits_levenshtein[of x y] levenshtein_least[of x y] show ?thesis by blast
qed

text \<open>The theorem at concrete strings: one deletion turns "ab" into "b".\<close>

theorem similarity_code_units_witness:
  "edits (utf16 ''ab'') (utf16 ''b'') 1 \<and> levenshtein (utf16 ''ab'') (utf16 ''b'') \<le> 1
   \<and> trim (utf16 '' Zoe '') \<noteq> [] \<and> similarity lowerBasic (utf16 '' Zoe '') (utf16 '' Zoe '') = 1"
proof -
  have e: "edits (utf16 ''ab'') (utf16 ''b'') 1"
    unfolding utf16_def by (auto intro: edits.intros simp: One_nat_def)
  have t: "trim (utf16 '' Zoe '') \<noteq> []"
    by (simp add: trim_def utf16_def isSpace_def)
  from e t similarity_code_units[of lowerBasic "[]" "[]" "utf16 ''ab''" "utf16 ''b''" "utf16 '' Zoe ''"]
  show ?thesis by blast
qed

text \<open>
  Claim C5 as stated, with the distance over Unicode code points, fails on a string with
  a surrogate pair: U+1F600 followed by "a", against "a". The code counts three code
  units and two edits, the claim two code points and one edit.
\<close>

theorem similarity_code_points_counterexample:
  "similarity lowerBasic [0xD83D, 0xDE00, 0x61] [0x61] = 1 / 3
   \<and> similarityCodePoints lowerBasic [0xD83D, 0xDE00, 0x61] [0x61] = 1 / 2"
  by (simp add: similarity_def similarityCodePoints_def Let_def trim_def isSpace_def
      levenshtein_def lowerAscii_def)

section \<open>C1: the overall score is the weighted mean of the applicable factors\<close>








text \<open>
  An empty sequence of emails passes the condition of the code, so its pair is counted:
  it adds the factor 0 with the weight 0.18, and the person named as the profile shows
  scores 0.30 / 0.48, rounded to 0.63.
\<close>

lemma empty_email_sequence_is_counted:
  "score (calculateMatchScore lowerBasic (\<lambda>d. None) 2026
     ((personNamed (utf16 ''Jane Doe''))\<lparr>email := Some (Many [])\<rparr>)
     (profileShowing (utf16 ''twitter'') (utf16 ''jane'') (utf16 ''Jane Doe''))) = 63 / 100"
  by code_simp

section \<open>C2: the range of the scores\<close>

text \<open>
  The similarity never exceeds 1, and it is not negative when lower-casing makes neither
  trimmed string longer.
\<close>

lemma similarity_le_one: "similarity lc a b \<le> 1"
  by (simp add: similarity_def Let_def)

lemma similarity_nonneg:
  assumes "length (lc (trim a)) \<le> length (trim a)" and "length (lc (trim b)) \<le> length (trim b)"
  shows "0 \<le> similarity lc a b"
proof -
  have "levenshtein (lc (trim a)) (lc (trim b)) \<le> max (length (lc (trim a))) (length (lc (trim b)))"
    by (rule levenshtein_le_max)
  also have "\<dots> \<le> max (length (trim a)) (length (trim b))"
    using assms by linarith
  finally have "(of_nat (levenshtein (lc (trim a)) (lc (trim b))) :: rat)
      \<le> of_nat (max (length (trim a)) (length (trim b)))"
    by (simp only: of_nat_le_iff)
  moreover have "trim a \<noteq> [] \<Longrightarrow> (0::rat) < of_nat (max (length (trim a)) (length (trim b)))"
    by (cases "trim a") simp_all
  ultimately show ?thesis
    by (auto simp: similarity_def Let_def divide_le_eq_1)
qed

text \<open>
  Claim C2 says that every matcher and the overall score stay in the interval from 0 to 1.
  \<open>similarity\<close> divides the edit distance of the lower-cased strings by the lengths taken
  before lower-casing. The lower-case form of U+0130 is two code units long, so for the
  name U+0130 against the display name "x" the distance is 2 and the divisor 1: the name
  matcher returns -1, and so does the overall score of a person with that name alone.
\<close>

theorem matchName_negative_for_dotted_capital_I:
  "matchName lowerBasic (Some [0x130]) (Some (utf16 ''x'')) = - 1
   \<and> score (calculateMatchScore lowerBasic (\<lambda>d. None) 2026
        (personNamed [0x130])
        (profileShowing (utf16 ''twitter'') (utf16 ''x'') (utf16 ''x''))) = - 1"
  by code_simp

section \<open>C6: the initial path of the name matcher\<close>

text \<open>
  Claim C6 expects \<open>matchName\<close> of "Jane Doe" and "J. Doe" to take the initial path and
  return 0.5 + 1 * 0.3 = 0.8. The path asks for a first token of length 1; the token "j."
  has length 2, so the call falls through to the similarity of the whole names, which is
  1 - 3/8. Without the full stop the initial path is taken and the result is 0.8; with a
  single token on either side it is 0.4.
\<close>

theorem matchName_initial_with_full_stop:
  "matchName lowerBasic (Some (utf16 ''Jane Doe'')) (Some (utf16 ''J. Doe'')) = 5 / 8
   \<and> similarity lowerBasic (utf16 ''Jane Doe'') (utf16 ''J. Doe'') = 5 / 8
   \<and> matchName lowerBasic (Some (utf16 ''Jane Doe'')) (Some (utf16 ''J Doe'')) = 8 / 10
   \<and> matchName lowerBasic (Some (utf16 ''Jane'')) (Some (utf16 ''J'')) = 4 / 10"
  by code_simp


section \<open>C3: missing operands\<close>











section \<open>C4: ranking\<close>

lemma mset_insertByScore: "mset (insertByScore r xs) = add_mset r (mset xs)"
  by (induction xs) simp_all

lemma set_insertByScore: "set (insertByScore r xs) = insert r (set xs)"
  by (induction xs) auto

lemma sorted_insertByScore:
  "sorted_wrt (\<lambda>a b. score b \<le> score a) xs \<Longrightarrow> sorted_wrt (\<lambda>a b. score b \<le> score a) (insertByScore r xs)"
  by (induction xs) (auto simp: set_insertByScore compareScore_def)

lemma filter_insertByScore:
  "filter (\<lambda>x. score x = s) (insertByScore r xs)
     = (if score r = s then r # filter (\<lambda>x. score x = s) xs else filter (\<lambda>x. score x = s) xs)"
  by (induction xs) (auto simp: compareScore_def)

lemma mset_sortByScore: "mset (sortByScore rs) = mset rs"
  by (induction rs) (simp_all add: sortByScore_def mset_insertByScore)

lemma sorted_sortByScore: "sorted_wrt (\<lambda>a b. score b \<le> score a) (sortByScore rs)"
  by (induction rs) (simp_all add: sortByScore_def sorted_insertByScore)

lemma filter_sortByScore:
  "filter (\<lambda>x. score x = s) (sortByScore rs) = filter (\<lambda>x. score x = s) rs"
  by (induction rs) (simp_all add: sortByScore_def filter_insertByScore)

text \<open>
  Claim C4. For every person and list of profiles, \<open>matchProfiles\<close> returns one result per
  input profile (the results of \<open>calculateMatchScore\<close>, rearranged), in descending order
  of overall score; results of equal score keep the order of the input; the empty list
  of profiles gives the empty list of results.
\<close>

theorem matchProfiles_sorted_stable:
  "length (matchProfiles lc parseYear now person profiles) = length profiles
   \<and> mset (matchProfiles lc parseYear now person profiles)
       = mset (map (calculateMatchScore lc parseYear now person) profiles)
   \<and> sorted_wrt (\<lambda>a b. score b \<le> score a) (matchProfiles lc parseYear now person profiles)
   \<and> (\<forall>s. filter (\<lambda>r. score r = s) (matchProfiles lc parseYear now person profiles)
          = filter (\<lambda>r. score r = s) (map (calculateMatchScore lc parseYear now person) profiles))
   \<and> matchProfiles lc parseYear now person [] = []"
proof -
  have m: "mset (matchProfiles lc parseYear now person profiles)
       = mset (map (calculateMatchScore lc parseYear now person) profiles)"
    by (simp add: matchProfiles_def mset_sortByScore)
  from mset_eq_length[OF m] have l: "length (matchProfiles lc parseYear now person profiles) = length profiles"
    by simp
  have e: "matchProfiles lc parseYear now person [] = []"
    by (simp add: matchProfiles_def sortByScore_def)
  from l m e show ?thesis
    by (simp add: matchProfiles_def sorted_sortByScore filter_sortByScore)
qed

text \<open>
  The theorem at three profiles: the second and the third both score 1 and stay in
  their order, before the first.
\<close>

theorem matchProfiles_sorted_stable_witness:
  "length (matchProfiles lowerBasic (\<lambda>d. None) 2026
        (personNamed (utf16 ''Jane Doe''))
        [(profileShowing (utf16 ''github'') (utf16 ''bob'') (utf16 ''Bob Smith'')),
         (profileShowing (utf16 ''twitter'') (utf16 ''jane'') (utf16 ''Jane Doe'')),
         (profileShowing (utf16 ''linkedin'') (utf16 ''jane'') (utf16 ''jane  doe''))]) = 3
   \<and> map profile (matchProfiles lowerBasic (\<lambda>d. None) 2026
        (personNamed (utf16 ''Jane Doe''))
        [(profileShowing (utf16 ''github'') (utf16 ''bob'') (utf16 ''Bob Smith'')),
         (profileShowing (utf16 ''twitter'') (utf16 ''jane'') (utf16 ''Jane Doe'')),
         (profileShowing (utf16 ''linkedin'') (utf16 ''jane'') (utf16 ''jane  doe''))]) = 
         [(profileShowing (utf16 ''twitter'') (utf16 ''jane'') (utf16 ''Jane Doe'')),
         (profileShowing (utf16 ''linkedin'') (utf16 ''jane'') (utf16 ''jane  doe'')),
         (profileShowing (utf16 ''github'') (utf16 ''bob'') (utf16 ''Bob Smith''))]"
proof -
  have order: "map profile (matchProfiles lowerBasic (\<lambda>d. None) 2026
          (personNamed (utf16 ''Jane Doe''))
          [(profileShowing (utf16 ''github'') (utf16 ''bob'') (utf16 ''Bob Smith'')),
           (profileShowing (utf16 ''twitter'') (utf16 ''jane'') (utf16 ''Jane Doe'')),
           (profileShowing (utf16 ''linkedin'') (utf16 ''jane'') (utf16 ''jane  doe''))]) = 
           [(profileShowing (utf16 ''twitter'') (utf16 ''jane'') (utf16 ''Jane Doe'')),
           (profileShowing (utf16 ''linkedin'') (utf16 ''jane'') (utf16 ''jane  doe'')),
           (profileShowing (utf16 ''github'') (utf16 ''bob'') (utf16 ''Bob Smith''))]"
    by code_simp
  from order matchProfiles_sorted_stable[of lowerBasic "\<lambda>d. None" 2026
      "(personNamed (utf16 ''Jane Doe''))"
      "[(profileShowing (utf16 ''github'') (utf16 ''bob'') (utf16 ''Bob Smith'')),
         (profileShowing (utf16 ''twitter'') (utf16 ''jane'') (utf16 ''Jane Doe'')),
         (profileShowing (utf16 ''linkedin'') (utf16 ''jane'') (utf16 ''jane  doe''))]"]
  show ?thesis by simp
qed


section \<open>C7: the year of birth in the bio\<close>

lemma ageAt_digits:
  "ageAt s = Some ds \<Longrightarrow> (length ds = 1 \<or> length ds = 2) \<and> (\<forall>d \<in> set ds. isDigit d)"
  by (induction s rule: ageAt.induct) (auto split: if_splits)

lemma firstMatch_ageAt_digits:
  "firstMatch ageAt s = Some ds \<Longrightarrow> (length ds = 1 \<or> length ds = 2) \<and> (\<forall>d \<in> set ds. isDigit d)"
proof (induction s)
  case Nil
  then show ?case by simp
next
  case (Cons c s)
  then show ?case using ageAt_digits[of "c # s" ds] by (auto split: option.splits)
qed

lemma extractYearFromBio_age:
  "firstMatch bornAt b = None \<Longrightarrow>
   extractYearFromBio now b =
     (case firstMatch ageAt b of
        None \<Rightarrow> None
      | Some ds \<Rightarrow> if 10 < parseInt ds \<and> parseInt ds < 100 then Some (now - int (parseInt ds)) else None)"
  by (simp add: extractYearFromBio_def Let_def split: option.splits)

lemma matchDateOfBirth_year:
  "d \<noteq> [] \<Longrightarrow> b \<noteq> [] \<Longrightarrow> parseYear d = Some py \<Longrightarrow> extractYearFromBio now b = Some y \<Longrightarrow> y \<noteq> 0 \<Longrightarrow>
   matchDateOfBirth parseYear now (Some d) (Some b) =
     (if y = py then 1 else if \<bar>y - py\<bar> = 1 then 7 / 10 else 0)"
  by auto

lemma age_patterns:
  "map_option parseInt (firstMatch ageAt (utf16 ''I am 30 years old'')) = Some 30"
  "map_option parseInt (firstMatch ageAt (utf16 ''25yo developer'')) = Some 25"
  "map_option parseInt (firstMatch ageAt (utf16 ''dad, 41 Y/O'')) = Some 41"
  "map_option parseInt (firstMatch ageAt (utf16 ''7 year old'')) = Some 7"
  by code_simp+

text \<open>
  Claim C7, as amended. When the bio has no "born" pattern, an age pattern ("NN years
  old", "NNyo", "NN y/o", with NN of one or two digits) yields the candidate year
  \<open>now - NN\<close> exactly when the parsed age is strictly between 10 and 100, that is from
  11 to 99. When a year other than 0 is extracted from the bio, the result is 1 if it is
  the person's birth year, 0.7 if it differs from it by exactly 1, and 0 for any larger
  difference.
\<close>

theorem matchDateOfBirth_year_rule:
  "(firstMatch bornAt b = None \<longrightarrow>
      extractYearFromBio now b =
        (case firstMatch ageAt b of
           None \<Rightarrow> None
         | Some ds \<Rightarrow> if 10 < parseInt ds \<and> parseInt ds < 100
                      then Some (now - int (parseInt ds)) else None))
   \<and> (firstMatch ageAt b = Some ds \<longrightarrow>
        (length ds = 1 \<or> length ds = 2) \<and> (\<forall>d \<in> set ds. isDigit d))
   \<and> (d \<noteq> [] \<and> b \<noteq> [] \<and> parseYear d = Some py \<and> extractYearFromBio now b = Some y \<and> y \<noteq> 0 \<longrightarrow>
        matchDateOfBirth parseYear now (Some d) (Some b) =
          (if y = py then 1 else if \<bar>y - py\<bar> = 1 then 7 / 10 else 0))
   \<and> map_option parseInt (firstMatch ageAt (utf16 ''I am 30 years old'')) = Some 30
   \<and> map_option parseInt (firstMatch ageAt (utf16 ''25yo developer'')) = Some 25
   \<and> map_option parseInt (firstMatch ageAt (utf16 ''dad, 41 Y/O'')) = Some 41"
  using extractYearFromBio_age[of b now] firstMatch_ageAt_digits[of b ds]
    matchDateOfBirth_year[of d b parseYear py now y] age_patterns
  by blast

text \<open>The theorem at the bio "35 years old" in 2026, for a person born in 1990.\<close>

theorem matchDateOfBirth_year_rule_witness:
  "firstMatch bornAt (utf16 ''35 years old'') = None
   \<and> firstMatch ageAt (utf16 ''35 years old'') = Some (utf16 ''35'')
   \<and> extractYearFromBio 2026 (utf16 ''35 years old'') = Some 1991
   \<and> length (utf16 ''35'') = 2
   \<and> matchDateOfBirth (\<lambda>d. if d = utf16 ''1990-05-15'' then Some 1990 else None) 2026
        (Some (utf16 ''1990-05-15'')) (Some (utf16 ''35 years old'')) = 7 / 10"
proof -
  have f: "firstMatch bornAt (utf16 ''35 years old'') = None"
    "firstMatch ageAt (utf16 ''35 years old'') = Some (utf16 ''35'')"
    "extractYearFromBio 2026 (utf16 ''35 years old'') = Some 1991"
    "utf16 ''1990-05-15'' \<noteq> []" "utf16 ''35 years old'' \<noteq> []"
    "length (utf16 ''35'') = 2"
    by code_simp+
  from f matchDateOfBirth_year_rule[where b = "utf16 ''35 years old''" and now = 2026
      and ds = "utf16 ''35''" and d = "utf16 ''1990-05-15''" and py = 1990 and y = 1991
      and parseYear = "\<lambda>d. if d = utf16 ''1990-05-15'' then Some 1990 else None"]
  show ?thesis by simp
qed

text \<open>
  Claim C7 as stated admits an age only strictly between 10 and 99. The bio "99 years
  old" has the parsed age 99, which is not below 99, and the code yields the candidate
  year \<open>now - 99\<close> for it.
\<close>

theorem age_99_counterexample:
  "firstMatch bornAt (utf16 ''99 years old'') = None
   \<and> map_option parseInt (firstMatch ageAt (utf16 ''99 years old'')) = Some 99
   \<and> extractYearFromBio 2026 (utf16 ''99 years old'') = Some (2026 - 99)"
  by code_simp

text \<open>
  The year 0 is left out of the rule above: \<^verbatim>\<open>if (bioYear)\<close> takes an extracted year 0 for
  no year, also when the person's year is 0.
\<close>

lemma born_year_zero:
  "extractYearFromBio 2026 (utf16 ''born 0000'') = Some 0
   \<and> matchDateOfBirth (\<lambda>d. Some 0) 2026 (Some (utf16 ''0000-06-15'')) (Some (utf16 ''born 0000'')) = 0"
  by code_simp

section \<open>C8: the order of the location checks\<close>

lemma basicLatin_ascii:
  "basicLatin lc \<Longrightarrow> \<forall>u \<in> set s. u < 0x80 \<Longrightarrow> lc s = map lowerAscii s"
  by (simp add: basicLatin_def)

lemma basicLatin_lowerBasic: "basicLatin lowerBasic"
proof -
  have "\<forall>u \<in> set s. u < 0x80 \<Longrightarrow> lowerBasic s = map lowerAscii s" for s
    by (induction s) auto
  then show ?thesis by (simp add: basicLatin_def)
qed

lemma matchLocation_order:
  "a \<noteq> [] \<Longrightarrow> b \<noteq> [] \<Longrightarrow>
   matchLocation lc (Some a) (Some b) =
     (let n1 = normalizeLocation lc a; n2 = normalizeLocation lc b in
      if n1 = n2 then 1
      else if matchLocationAlias lc a b then 9 / 10
      else if includes_str n1 n2 \<or> includes_str n2 n1 then 85 / 100
      else similarity lc n1 n2)"
  by simp

lemma lower_bay: "basicLatin lc \<Longrightarrow> lc (utf16 ''Bay Area'') = utf16 ''bay area''"
  by (subst basicLatin_ascii) (simp_all add: utf16_def lowerAscii_def)

lemma lower_sf: "basicLatin lc \<Longrightarrow> lc (utf16 ''San Francisco'') = utf16 ''san francisco''"
  by (subst basicLatin_ascii) (simp_all add: utf16_def lowerAscii_def)

lemma lower_sfca: "basicLatin lc \<Longrightarrow> lc (utf16 ''San Francisco, CA'') = utf16 ''san francisco, ca''"
  by (subst basicLatin_ascii) (simp_all add: utf16_def lowerAscii_def)

lemma collapse_examples:
  "trim (collapseWs False (map (\<lambda>u. if u = 0x2E \<or> u = 0x2C then 0x20 else u) (utf16 ''bay area'')))
     = utf16 ''bay area''"
  "trim (collapseWs False (map (\<lambda>u. if u = 0x2E \<or> u = 0x2C then 0x20 else u) (utf16 ''san francisco'')))
     = utf16 ''san francisco''"
  "trim (collapseWs False (map (\<lambda>u. if u = 0x2E \<or> u = 0x2C then 0x20 else u) (utf16 ''san francisco, ca'')))
     = utf16 ''san francisco ca''"
  by code_simp+

lemma norm_bay: "basicLatin lc \<Longrightarrow> normalizeLocation lc (utf16 ''Bay Area'') = utf16 ''bay area''"
  by (simp only: normalizeLocation_def lower_bay collapse_examples)

lemma norm_sf: "basicLatin lc \<Longrightarrow> normalizeLocation lc (utf16 ''San Francisco'') = utf16 ''san francisco''"
  by (simp only: normalizeLocation_def lower_sf collapse_examples)

lemma norm_sfca: "basicLatin lc \<Longrightarrow> normalizeLocation lc (utf16 ''San Francisco, CA'') = utf16 ''san francisco ca''"
  by (simp only: normalizeLocation_def lower_sfca collapse_examples)

lemma alias_table:
  "list_ex (\<lambda>(canonical, aliases). let all = canonical # aliases in
                 list_ex (\<lambda>a. includes_str (utf16 ''bay area'') a) all
                 \<and> list_ex (\<lambda>a. includes_str (utf16 ''san francisco'') a) all) LOCATION_ALIASES"
  "list_ex (\<lambda>(canonical, aliases). let all = canonical # aliases in
                 list_ex (\<lambda>a. includes_str (utf16 ''san francisco'') a) all
                 \<and> list_ex (\<lambda>a. includes_str (utf16 ''san francisco ca'') a) all) LOCATION_ALIASES"
  "\<not> includes_str (utf16 ''bay area'') (utf16 ''san francisco'')"
  "\<not> includes_str (utf16 ''san francisco'') (utf16 ''bay area'')"
  "includes_str (utf16 ''san francisco ca'') (utf16 ''san francisco'')"
  "utf16 ''bay area'' \<noteq> utf16 ''san francisco''"
  "utf16 ''san francisco'' \<noteq> utf16 ''san francisco ca''"
  "utf16 ''Bay Area'' \<noteq> []" "utf16 ''San Francisco'' \<noteq> []" "utf16 ''San Francisco, CA'' \<noteq> []"
  by code_simp+

lemma bay_area_example:
  assumes "basicLatin lc"
  shows "matchLocationAlias lc (utf16 ''Bay Area'') (utf16 ''San Francisco'')"
    and "matchLocation lc (Some (utf16 ''Bay Area'')) (Some (utf16 ''San Francisco'')) = 9 / 10"
    and "matchLocation lc (Some (utf16 ''San Francisco'')) (Some (utf16 ''San Francisco, CA'')) = 9 / 10"
proof -
  show a: "matchLocationAlias lc (utf16 ''Bay Area'') (utf16 ''San Francisco'')"
    unfolding matchLocationAlias_def Let_def norm_bay[OF assms] norm_sf[OF assms]
    using alias_table(1) by (simp add: Let_def)
  have b: "matchLocationAlias lc (utf16 ''San Francisco'') (utf16 ''San Francisco, CA'')"
    unfolding matchLocationAlias_def Let_def norm_sfca[OF assms] norm_sf[OF assms]
    using alias_table(2) by (simp add: Let_def)
  show "matchLocation lc (Some (utf16 ''Bay Area'')) (Some (utf16 ''San Francisco'')) = 9 / 10"
    using a alias_table(6,8,9)
    by (simp add: Let_def norm_bay[OF assms] norm_sf[OF assms] del: matchLocation.simps add: matchLocation_order)
  show "matchLocation lc (Some (utf16 ''San Francisco'')) (Some (utf16 ''San Francisco, CA'')) = 9 / 10"
    using b alias_table(7,9,10)
    by (simp add: Let_def norm_sfca[OF assms] norm_sf[OF assms] del: matchLocation.simps add: matchLocation_order)
qed

text \<open>
  Claim C8. On two locations that are not missing, \<open>matchLocation\<close> applies its checks
  in this order: equal normalised strings give 1; otherwise an alias match gives 0.9;
  otherwise containment of one normalised string in the other gives 0.85; otherwise the
  result is the similarity of the normalised strings. The alias check comes before the
  containment check: "Bay Area" and "San Francisco" match by alias, contain each other
  in neither direction, and score 0.9; "San Francisco" and "San Francisco, CA" match by
  alias and by containment, and score 0.9. A location is missing when it is
  \<^verbatim>\<open>undefined\<close> or the empty string. The examples hold for every \<open>lc\<close> that lowers ASCII
  strings as \<^verbatim>\<open>toLowerCase\<close> does.
\<close>

theorem matchLocation_check_order:
  "(a \<noteq> [] \<and> b \<noteq> [] \<longrightarrow>
      matchLocation lc (Some a) (Some b) =
        (let n1 = normalizeLocation lc a; n2 = normalizeLocation lc b in
         if n1 = n2 then 1
         else if matchLocationAlias lc a b then 9 / 10
         else if includes_str n1 n2 \<or> includes_str n2 n1 then 85 / 100
         else similarity lc n1 n2))
   \<and> (basicLatin lc \<longrightarrow>
        matchLocationAlias lc (utf16 ''Bay Area'') (utf16 ''San Francisco'')
        \<and> \<not> includes_str (normalizeLocation lc (utf16 ''Bay Area'')) (normalizeLocation lc (utf16 ''San Francisco''))
        \<and> \<not> includes_str (normalizeLocation lc (utf16 ''San Francisco'')) (normalizeLocation lc (utf16 ''Bay Area''))
        \<and> matchLocation lc (Some (utf16 ''Bay Area'')) (Some (utf16 ''San Francisco'')) = 9 / 10
        \<and> includes_str (normalizeLocation lc (utf16 ''San Francisco, CA'')) (normalizeLocation lc (utf16 ''San Francisco''))
        \<and> matchLocation lc (Some (utf16 ''San Francisco'')) (Some (utf16 ''San Francisco, CA'')) = 9 / 10)"
proof -
  have ex: "matchLocationAlias lc (utf16 ''Bay Area'') (utf16 ''San Francisco'')
        \<and> \<not> includes_str (normalizeLocation lc (utf16 ''Bay Area'')) (normalizeLocation lc (utf16 ''San Francisco''))
        \<and> \<not> includes_str (normalizeLocation lc (utf16 ''San Francisco'')) (normalizeLocation lc (utf16 ''Bay Area''))
        \<and> matchLocation lc (Some (utf16 ''Bay Area'')) (Some (utf16 ''San Francisco'')) = 9 / 10
        \<and> includes_str (normalizeLocation lc (utf16 ''San Francisco, CA'')) (normalizeLocation lc (utf16 ''San Francisco''))
        \<and> matchLocation lc (Some (utf16 ''San Francisco'')) (Some (utf16 ''San Francisco, CA'')) = 9 / 10"
    if bl: "basicLatin lc"
    using bay_area_example[OF bl] alias_table(3,4,5)
    by (simp only: norm_bay[OF bl] norm_sf[OF bl] norm_sfca[OF bl] simp_thms)
  from ex matchLocation_order[of a b lc] show ?thesis by blast
qed

text \<open>The theorem for the lower-casing of the Basic Latin block, and at a pair that reaches the last check.\<close>

theorem matchLocation_check_order_witness:
  "basicLatin lowerBasic
   \<and> matchLocation lowerBasic (Some (utf16 ''Bay Area'')) (Some (utf16 ''San Francisco'')) = 9 / 10
   \<and> matchLocation lowerBasic (Some (utf16 ''San Francisco'')) (Some (utf16 ''San Francisco, CA'')) = 9 / 10
   \<and> matchLocation lowerBasic (Some (utf16 ''Tokyo, Japan'')) (Some (utf16 ''London, UK''))
       = similarity lowerBasic (utf16 ''tokyo japan'') (utf16 ''london uk'')"
proof -
  have f: "utf16 ''Tokyo, Japan'' \<noteq> []" "utf16 ''London, UK'' \<noteq> []"
    "normalizeLocation lowerBasic (utf16 ''Tokyo, Japan'') = utf16 ''tokyo japan''"
    "normalizeLocation lowerBasic (utf16 ''London, UK'') = utf16 ''london uk''"
    "utf16 ''tokyo japan'' \<noteq> utf16 ''london uk''"
    "\<not> matchLocationAlias lowerBasic (utf16 ''Tokyo, Japan'') (utf16 ''London, UK'')"
    "\<not> includes_str (utf16 ''tokyo japan'') (utf16 ''london uk'')"
    "\<not> includes_str (utf16 ''london uk'') (utf16 ''tokyo japan'')"
    by code_simp+
  from f basicLatin_lowerBasic
    matchLocation_check_order[of "utf16 ''Tokyo, Japan''" "utf16 ''London, UK''" lowerBasic]
  show ?thesis by (simp add: Let_def del: matchLocation.simps)
qed

section \<open>C9: the first qualifying email\<close>








section \<open>C10: a local part without letters\<close>

lemma includes_str_Nil [simp]: "includes_str s []"
  by (cases s) simp_all

lemma lowerAscii_no_letter:
  "isDigit c \<or> c = 0x2E \<or> c = 0x5F \<or> c = 0x2D \<Longrightarrow> lowerAscii c = c \<and> c < 0x80"
  unfolding isDigit_def lowerAscii_def
  by (auto simp: word_le_nat_alt word_less_nat_alt)

lemma strip_all_gone:
  "\<forall>c \<in> set s. isDigit c \<or> c = 0x2E \<or> c = 0x5F \<or> c = 0x2D \<Longrightarrow> stripPunctDigits s = []"
  unfolding stripPunctDigits_def by (induction s) auto

lemma lc_no_letter:
  assumes "basicLatin lc" and "\<forall>c \<in> set s. isDigit c \<or> c = 0x2E \<or> c = 0x5F \<or> c = 0x2D"
  shows "lc s = s"
proof -
  from assms(2) have "\<forall>c \<in> set s. c < 0x80" and "map lowerAscii s = s"
    using lowerAscii_no_letter by (auto simp: map_idI)
  with assms(1) show ?thesis by (simp add: basicLatin_def)
qed

lemma emailLoop_numeric:
  assumes "basicLatin lc" and "\<forall>c \<in> set (localPart e). isDigit c \<or> c = 0x2E \<or> c = 0x5F \<or> c = 0x2D"
  shows "7 / 10 \<le> emailLoop lc u uNorm (e # rest)"
proof -
  have "stripPunctDigits (lc (localPart e)) = []"
    using lc_no_letter[OF assms] strip_all_gone[OF assms(2)] by simp
  then show ?thesis by (simp add: Let_def)
qed

text \<open>
  Claim C10. For every email (a string that is not empty) whose local part consists of
  digits, full stops, underscores and hyphens only, and every user name that is not
  empty, \<open>matchEmailToUsername\<close> returns at least 0.7, for the email alone and for a
  sequence that starts with it: the stripped local part is empty, and the empty string
  is contained in every stripped user name. \<^verbatim>\<open>toLowerCase\<close> enters through its action on
  ASCII strings.
\<close>

theorem numeric_local_part_matches_any_username:
  "basicLatin lc \<and> e \<noteq> [] \<and> u \<noteq> []
   \<and> (\<forall>c \<in> set (localPart e). isDigit c \<or> c = 0x2E \<or> c = 0x5F \<or> c = 0x2D) \<longrightarrow>
     7 / 10 \<le> matchEmailToUsername lc (Some (One e)) (Some u)
     \<and> 7 / 10 \<le> matchEmailToUsername lc (Some (Many (e # rest))) (Some u)
     \<and> emailTier lc u e \<in> {Some 1, Some (9 / 10), Some (7 / 10)}"
proof (intro impI, elim conjE)
  assume bl: "basicLatin lc" and e: "e \<noteq> []" and u: "u \<noteq> []"
    and np: "\<forall>c \<in> set (localPart e). isDigit c \<or> c = 0x2E \<or> c = 0x5F \<or> c = 0x2D"
  have s: "stripPunctDigits (lc (localPart e)) = []"
    using lc_no_letter[OF bl np] strip_all_gone[OF np] by simp
  have t: "emailTier lc u e \<in> {Some 1, Some (9 / 10), Some (7 / 10)}"
    by (simp add: emailTier_def Let_def s)
  from emailLoop_numeric[OF bl np] e u t
  show "7 / 10 \<le> matchEmailToUsername lc (Some (One e)) (Some u)
     \<and> 7 / 10 \<le> matchEmailToUsername lc (Some (Many (e # rest))) (Some u)
     \<and> emailTier lc u e \<in> {Some 1, Some (9 / 10), Some (7 / 10)}"
    by (simp add: truthyOM_def del: emailLoop.simps)
qed

text \<open>The theorem at the email "123@x.com" and the user name "bob".\<close>

theorem numeric_local_part_matches_any_username_witness:
  "basicLatin lowerBasic
   \<and> localPart (utf16 ''123@x.com'') = utf16 ''123''
   \<and> 7 / 10 \<le> matchEmailToUsername lowerBasic (Some (One (utf16 ''123@x.com''))) (Some (utf16 ''bob''))
   \<and> 7 / 10 \<le> matchEmailToUsername lowerBasic
        (Some (Many [utf16 ''123@x.com'', utf16 ''bob@x.com''])) (Some (utf16 ''bob''))"
proof -
  have f: "utf16 ''123@x.com'' \<noteq> []" "utf16 ''bob'' \<noteq> []"
    "localPart (utf16 ''123@x.com'') = utf16 ''123''"
    "\<forall>c \<in> set (localPart (utf16 ''123@x.com'')). isDigit c \<or> c = 0x2E \<or> c = 0x5F \<or> c = 0x2D"
    by code_simp+
  from f basicLatin_lowerBasic
    numeric_local_part_matches_any_username[of lowerBasic "utf16 ''123@x.com''" "utf16 ''bob''"
      "[utf16 ''bob@x.com'']"]
  show ?thesis by blast
qed

end
